theory Spec2Isabelle
  imports Complex_Main "HOL-Library.Product_Lexorder" "HOL-Library.Multiset"
begin

section \<open>The stored rows\<close>

text \<open>
  A naive \<open>datetime\<close> value, with the fields Python's \<open>datetime\<close> holds. Python orders two
  naive datetimes field by field, year first; SQLite stores them as fixed-width text
  \<open>YYYY-MM-DD HH:MM:SS.ffffff\<close> and orders that text, which is the same order.
\<close>

record datetime =
  dt_year :: nat
  dt_month :: nat
  dt_day :: nat
  dt_hour :: nat
  dt_minute :: nat
  dt_second :: nat
  dt_microsecond :: nat

definition dt_key :: "datetime \<Rightarrow> nat \<times> nat \<times> nat \<times> nat \<times> nat \<times> nat \<times> nat" where
  "dt_key d =
     (dt_year d, dt_month d, dt_day d, dt_hour d, dt_minute d, dt_second d, dt_microsecond d)"

definition dt_le :: "datetime \<Rightarrow> datetime \<Rightarrow> bool" where
  "dt_le a b = (dt_key a \<le> dt_key b)"

definition dt_lt :: "datetime \<Rightarrow> datetime \<Rightarrow> bool" where
  "dt_lt a b = (dt_key a < dt_key b)"

text \<open>
  The three tables of \<open>main.py\<close>. A column is nullable unless it is the primary key; the
  rows modelled are those the creation schemas \<open>UserCreate\<close>, \<open>TransactionCreate\<close> and
  \<open>BudgetCreate\<close> describe, which every listing endpoint also uses as its response model:
  name, email, description, amount, category and a budget's two dates are present, a
  transaction's date is \<open>Optional\<close>, and \<open>user_id\<close> belongs to no schema, so it may be
  NULL. Amounts are \<open>Float\<close> columns; they are taken as real numbers, so a sum is the exact
  sum and no rounding is modelled.
\<close>

record user =
  u_id :: int
  u_name :: string
  u_email :: string

record transaction =
  t_id :: int
  t_description :: string
  t_amount :: real
  t_date :: "datetime option"
  t_category :: string
  t_user_id :: "int option"

record budget =
  b_id :: int
  b_name :: string
  b_amount :: real
  b_category :: string
  b_start_date :: datetime
  b_end_date :: datetime
  b_user_id :: "int option"

record db =
  users :: "user list"
  transactions :: "transaction list"
  budgets :: "budget list"

text \<open>
  What a handler can end with other than a value: the \<open>HTTPException\<close> it raises itself
  (with its status code), or a Python exception nobody catches, which the framework
  answers with status 500.
\<close>

datatype error = HTTPException nat | AttributeError | TypeError | OverflowError

abbreviation NotFound :: error where
  "NotFound \<equiv> HTTPException 404"

section \<open>Queries\<close>

text \<open>
  \<open>Query.filter(p).first()\<close> is the first row that satisfies \<open>p\<close>, or \<open>None\<close>;
  \<open>.all()\<close> is the list of the rows that satisfy it; \<open>.count()\<close> counts them without
  building the list; \<open>func.sum(col)\<close> with \<open>.scalar()\<close> is the sum of the column over
  the rows selected, and NULL (Python's \<open>None\<close>) when no row is selected.
\<close>

definition query_first :: "('a \<Rightarrow> bool) \<Rightarrow> 'a list \<Rightarrow> 'a option" where
  "query_first p rows = find p rows"

definition query_all :: "('a \<Rightarrow> bool) \<Rightarrow> 'a list \<Rightarrow> 'a list" where
  "query_all p rows = filter p rows"

primrec query_count :: "('a \<Rightarrow> bool) \<Rightarrow> 'a list \<Rightarrow> nat" where
  "query_count p [] = 0"
| "query_count p (r # rows) = (if p r then Suc (query_count p rows) else query_count p rows)"

definition func_sum :: "real list \<Rightarrow> real option" where
  "func_sum xs = (if xs = [] then None else Some (sum_list xs))"

text \<open>
  A comparison of a nullable column with a value is NULL on a NULL column, and a row
  whose filter is NULL is not selected.
\<close>

definition date_ge :: "datetime option \<Rightarrow> datetime \<Rightarrow> bool" where
  "date_ge c d = (case c of None \<Rightarrow> False | Some x \<Rightarrow> dt_le d x)"

definition date_le :: "datetime option \<Rightarrow> datetime \<Rightarrow> bool" where
  "date_le c d = (case c of None \<Rightarrow> False | Some x \<Rightarrow> dt_le x d)"

definition date_lt :: "datetime option \<Rightarrow> datetime \<Rightarrow> bool" where
  "date_lt c d = (case c of None \<Rightarrow> False | Some x \<Rightarrow> dt_lt x d)"

text \<open>
  An integer id of a request is bound as a parameter of the handler's first statement.
  SQLite's INTEGER is a signed 64-bit value, and the driver raises \<open>OverflowError\<close> for a
  Python int outside it, before any row is read and whatever the tables hold; nothing
  catches it. \<open>delete_user\<close>, \<open>extend_budget\<close> and \<open>get_total_spent\<close>, whose results are
  stated below for every id, carry this check. The budget analytics and the monthly report
  bind their id the same way; they are applied below to the ids of stored rows and to small
  constants, which pass it.
\<close>

definition bind_int :: "int \<Rightarrow> error + int" where
  "bind_int i = (if - (2 ^ 63) \<le> i \<and> i \<le> 2 ^ 63 - 1 then Inr i else Inl OverflowError)"

section \<open>Budget analytics\<close>

text \<open>
  The spending a budget is compared with: the transactions whose \<open>user_id\<close> and category
  equal the budget's. \<open>Transaction.user_id == db_budget.user_id\<close> with a budget whose
  \<open>user_id\<close> is \<open>None\<close> is rendered \<open>IS NULL\<close>, so equality of the two optional values is
  what the filter tests.
\<close>

definition budget_spent :: "budget \<Rightarrow> db \<Rightarrow> real option" where
  "budget_spent db_budget st =
     func_sum (map t_amount
       (query_all (\<lambda>t. t_user_id t = b_user_id db_budget \<and> t_category t = b_category db_budget)
          (transactions st)))"

text \<open>
  \<open>check_budget_exceeded\<close> (lines 181-185). There is no test of \<open>db_budget\<close>: on \<open>None\<close>
  the attribute access \<open>db_budget.user_id\<close> raises \<open>AttributeError\<close>. \<open>total_spent >
  db_budget.amount\<close> with \<open>total_spent\<close> \<open>None\<close> raises \<open>TypeError\<close>.
\<close>

definition check_budget_exceeded :: "int \<Rightarrow> db \<Rightarrow> error + bool" where
  "check_budget_exceeded budget_id st =
     (case query_first (\<lambda>b. b_id b = budget_id) (budgets st) of
        None \<Rightarrow> Inl AttributeError
      | Some db_budget \<Rightarrow>
          (case budget_spent db_budget st of
             None \<Rightarrow> Inl TypeError
           | Some total_spent \<Rightarrow> Inr (total_spent > b_amount db_budget)))"

text \<open>
  \<open>get_budget_utilization\<close> (lines 200-205). The conditional expression tests
  \<open>db_budget.amount > 0\<close> first and divides only then, so the division never meets a zero
  divisor, and a \<open>None\<close> sum is only touched when the amount is positive.
\<close>

definition get_budget_utilization :: "int \<Rightarrow> db \<Rightarrow> error + real" where
  "get_budget_utilization budget_id st =
     (case query_first (\<lambda>b. b_id b = budget_id) (budgets st) of
        None \<Rightarrow> Inl AttributeError
      | Some db_budget \<Rightarrow>
          (let total_spent = budget_spent db_budget st in
           if b_amount db_budget > 0
           then (case total_spent of
                   None \<Rightarrow> Inl TypeError
                 | Some s \<Rightarrow> Inr (s / b_amount db_budget))
           else Inr 0))"

text \<open>
  \<open>extend_budget\<close> (lines 171-178), the sibling that does test for a missing budget. The
  lookup binds \<open>budget_id\<close>; the \<open>HTTPException\<close> is raised before anything is written.
\<close>

fun set_end_date :: "int \<Rightarrow> datetime \<Rightarrow> budget list \<Rightarrow> budget list" where
  "set_end_date budget_id d [] = []"
| "set_end_date budget_id d (b # bs) =
     (if b_id b = budget_id then b\<lparr>b_end_date := d\<rparr> # bs
      else b # set_end_date budget_id d bs)"

definition extend_budget :: "int \<Rightarrow> datetime \<Rightarrow> db \<Rightarrow> (error + budget) \<times> db" where
  "extend_budget budget_id new_end_date st =
     (case bind_int budget_id of
        Inl e \<Rightarrow> (Inl e, st)
      | Inr i \<Rightarrow>
          (case query_first (\<lambda>b. b_id b = i) (budgets st) of
             None \<Rightarrow> (Inl NotFound, st)
           | Some db_budget \<Rightarrow>
               (Inr (db_budget\<lparr>b_end_date := new_end_date\<rparr>),
                st\<lparr>budgets := set_end_date i new_end_date (budgets st)\<rparr>)))"

section \<open>Users\<close>

text \<open>
  \<open>delete_user\<close> (lines 114-121). \<open>User.transactions\<close> and \<open>User.budgets\<close> (lines 25-26)
  are one-to-many \<open>relationship()\<close>s declared with the default cascade, which has no
  \<open>delete\<close>. When the session flushes the deletion of such a parent it loads the children
  through the relationship and de-associates them: each child row whose foreign key is the
  parent's id gets \<open>user_id = NULL\<close>, then the parent row is deleted. The children are not
  deleted and no other column of theirs is written.
\<close>

definition detach_transaction :: "int \<Rightarrow> transaction \<Rightarrow> transaction" where
  "detach_transaction uid t = (if t_user_id t = Some uid then t\<lparr>t_user_id := None\<rparr> else t)"

definition detach_budget :: "int \<Rightarrow> budget \<Rightarrow> budget" where
  "detach_budget uid b = (if b_user_id b = Some uid then b\<lparr>b_user_id := None\<rparr> else b)"

definition session_delete_user :: "user \<Rightarrow> db \<Rightarrow> db" where
  "session_delete_user db_user st =
     \<lparr>users = filter (\<lambda>u. u_id u \<noteq> u_id db_user) (users st),
      transactions = map (detach_transaction (u_id db_user)) (transactions st),
      budgets = map (detach_budget (u_id db_user)) (budgets st)\<rparr>"

definition delete_user :: "int \<Rightarrow> db \<Rightarrow> (error + string) \<times> db" where
  "delete_user user_id st =
     (case bind_int user_id of
        Inl e \<Rightarrow> (Inl e, st)
      | Inr i \<Rightarrow>
          (case query_first (\<lambda>u. u_id u = i) (users st) of
             None \<Rightarrow> (Inl NotFound, st)
           | Some db_user \<Rightarrow> (Inr ''User deleted'', session_delete_user db_user st)))"

section \<open>Transactions\<close>

text \<open>\<open>filter_transactions_by_date\<close> (lines 129-131): both comparisons are non-strict.\<close>

definition filter_transactions_by_date :: "datetime \<Rightarrow> datetime \<Rightarrow> db \<Rightarrow> transaction list" where
  "filter_transactions_by_date start_date end_date st =
     query_all (\<lambda>t. date_ge (t_date t) start_date \<and> date_le (t_date t) end_date)
       (transactions st)"

text \<open>\<open>filter_transactions_by_category\<close> (lines 134-136).\<close>

definition filter_transactions_by_category :: "string \<Rightarrow> db \<Rightarrow> transaction list" where
  "filter_transactions_by_category category st =
     query_all (\<lambda>t. t_category t = category) (transactions st)"

text \<open>
  \<open>get_total_spent\<close> (lines 144-147): the query binds \<open>user_id\<close>; its scalar goes into the
  response as it is, \<open>None\<close> included, and nothing is computed with it.
\<close>

definition get_total_spent :: "int \<Rightarrow> db \<Rightarrow> error + real option" where
  "get_total_spent user_id st =
     (case bind_int user_id of
        Inl e \<Rightarrow> Inl e
      | Inr i \<Rightarrow>
          Inr (func_sum (map t_amount
                 (query_all (\<lambda>t. t_user_id t = Some i) (transactions st)))))"

text \<open>\<open>get_transactions_count_by_category\<close> (lines 194-197).\<close>

definition get_transactions_count_by_category :: "string \<Rightarrow> db \<Rightarrow> nat" where
  "get_transactions_count_by_category category st =
     query_count (\<lambda>t. t_category t = category) (transactions st)"

section \<open>The monthly report\<close>

text \<open>
  The proleptic Gregorian calendar of Python's \<open>datetime\<close>. Adding \<open>timedelta(days=n)\<close>
  moves the date \<open>n\<close> days on and keeps the time of day; a result after year 9999 raises
  \<open>OverflowError\<close>. \<open>replace(day=1)\<close> changes the day field and nothing else.
\<close>

definition is_leap :: "nat \<Rightarrow> bool" where
  "is_leap y = (y mod 4 = 0 \<and> (if y mod 100 = 0 then y mod 400 = 0 else True))"

definition days_in_month :: "nat \<Rightarrow> nat \<Rightarrow> nat" where
  "days_in_month y m =
     (if m = 2 then (if is_leap y then 29 else 28)
      else if m = 4 \<or> m = 6 \<or> m = 9 \<or> m = 11 then 30 else 31)"

definition next_day :: "datetime \<Rightarrow> datetime" where
  "next_day d =
     (if dt_day d < days_in_month (dt_year d) (dt_month d) then d\<lparr>dt_day := dt_day d + 1\<rparr>
      else if dt_month d < 12 then d\<lparr>dt_month := dt_month d + 1, dt_day := 1\<rparr>
      else d\<lparr>dt_year := dt_year d + 1, dt_month := 1, dt_day := 1\<rparr>)"

fun add_days :: "nat \<Rightarrow> datetime \<Rightarrow> datetime" where
  "add_days n d = (if n = 0 then d else add_days (n - 1) (next_day d))"

declare add_days.simps [simp del]

definition timedelta_add :: "datetime \<Rightarrow> nat \<Rightarrow> error + datetime" where
  "timedelta_add d days =
     (let r = add_days days d in if dt_year r > 9999 then Inl OverflowError else Inr r)"

text \<open>
  \<open>get_monthly_spending_report\<close> (lines 208-213), with the value of \<open>datetime.now()\<close> as an
  argument. \<open>start_date\<close> is \<open>now\<close> with the day set to 1: hour, minute, second and
  microsecond stay those of \<open>now\<close>, and so do those of \<open>end_date\<close>.
\<close>

definition get_monthly_spending_report :: "datetime \<Rightarrow> int \<Rightarrow> db \<Rightarrow> error + real option" where
  "get_monthly_spending_report now user_id st =
     (let start_date = now\<lparr>dt_day := 1\<rparr> in
      case timedelta_add start_date 31 of
        Inl e \<Rightarrow> Inl e
      | Inr later \<Rightarrow>
          (let end_date = later\<lparr>dt_day := 1\<rparr> in
           Inr (func_sum (map t_amount
             (query_all (\<lambda>t. t_user_id t = Some user_id \<and> date_ge (t_date t) start_date
                              \<and> date_lt (t_date t) end_date)
                (transactions st))))))"

text \<open>
  The month the specification describes, for comparison: from the first instant of the
  month of \<open>now\<close> (day 1, 00:00:00.000000), inclusive, to the first instant of the next
  month, exclusive.
\<close>

definition spec_month_start :: "datetime \<Rightarrow> datetime" where
  "spec_month_start now =
     \<lparr>dt_year = dt_year now, dt_month = dt_month now, dt_day = 1,
      dt_hour = 0, dt_minute = 0, dt_second = 0, dt_microsecond = 0\<rparr>"

definition spec_next_month_start :: "datetime \<Rightarrow> datetime" where
  "spec_next_month_start now =
     (if dt_month now < 12
      then \<lparr>dt_year = dt_year now, dt_month = dt_month now + 1, dt_day = 1,
            dt_hour = 0, dt_minute = 0, dt_second = 0, dt_microsecond = 0\<rparr>
      else \<lparr>dt_year = dt_year now + 1, dt_month = 1, dt_day = 1,
            dt_hour = 0, dt_minute = 0, dt_second = 0, dt_microsecond = 0\<rparr>)"

definition spec_monthly_spending :: "datetime \<Rightarrow> int \<Rightarrow> db \<Rightarrow> real" where
  "spec_monthly_spending now user_id st =
     sum_list (map t_amount
       (filter (\<lambda>t. t_user_id t = Some user_id \<and> date_ge (t_date t) (spec_month_start now)
                      \<and> date_lt (t_date t) (spec_next_month_start now))
          (transactions st)))"

text \<open>
  Day 1 of the month after the month of \<open>d\<close>, at the time of day of \<open>d\<close>.
\<close>

definition next_month_first :: "datetime \<Rightarrow> datetime" where
  "next_month_first d =
     (if dt_month d < 12 then d\<lparr>dt_month := dt_month d + 1, dt_day := 1\<rparr>
      else d\<lparr>dt_year := dt_year d + 1, dt_month := 1, dt_day := 1\<rparr>)"

section \<open>The highest spending category\<close>

text \<open>
  \<open>get_highest_spending_category\<close> (lines 216-219): one row per category with the sum of
  the amounts of its transactions, ordered by that sum, largest first, and the first row
  taken. SQL leaves the order among rows with equal sums to the engine. The order in which
  the engine produces the group rows is therefore an argument, \<open>row_order\<close>, applied to the
  rows before they are sorted; the sort keeps rows with equal sums in that order. Every
  result list that is ordered by the sum, largest first, arises so from some \<open>row_order\<close>
  that permutes the rows, itself for one. With no transaction there is no group, \<open>.first()\<close>
  is \<open>None\<close> and \<open>result[0]\<close> raises \<open>TypeError\<close>.
\<close>

definition category_total :: "transaction list \<Rightarrow> string \<Rightarrow> real" where
  "category_total ts c = sum_list (map t_amount (filter (\<lambda>t. t_category t = c) ts))"

definition group_by_category :: "transaction list \<Rightarrow> (string \<times> real) list" where
  "group_by_category ts = map (\<lambda>c. (c, category_total ts c)) (remdups (map t_category ts))"

definition order_by_desc :: "(string \<times> real) list \<Rightarrow> (string \<times> real) list" where
  "order_by_desc gs = sort_key (\<lambda>g. - snd g) gs"

definition get_highest_spending_category ::
  "((string \<times> real) list \<Rightarrow> (string \<times> real) list) \<Rightarrow> db \<Rightarrow> error + string \<times> real" where
  "get_highest_spending_category row_order st =
     (case order_by_desc (row_order (group_by_category (transactions st))) of
        [] \<Rightarrow> Inl TypeError
      | result # _ \<Rightarrow> Inr (fst result, snd result))"

section \<open>Sample rows\<close>

text \<open>Concrete rows and stores on which the handlers are evaluated below.\<close>

definition mk_datetime :: "nat \<Rightarrow> nat \<Rightarrow> nat \<Rightarrow> nat \<Rightarrow> datetime" where
  "mk_datetime y m d h =
     \<lparr>dt_year = y, dt_month = m, dt_day = d, dt_hour = h, dt_minute = 0, dt_second = 0,
      dt_microsecond = 0\<rparr>"

definition alice :: user where
  "alice = \<lparr>u_id = 1, u_name = ''alice'', u_email = ''alice@example.org''\<rparr>"

definition food_budget :: budget where
  "food_budget =
     \<lparr>b_id = 1, b_name = ''groceries'', b_amount = 100, b_category = ''food'',
      b_start_date = mk_datetime 2024 1 1 0, b_end_date = mk_datetime 2024 12 31 0,
      b_user_id = Some 1\<rparr>"

definition rent :: transaction where
  "rent =
     \<lparr>t_id = 1, t_description = ''rent'', t_amount = 10,
      t_date = Some (mk_datetime 2024 3 1 0), t_category = ''home'', t_user_id = Some 1\<rparr>"

definition fresh_budget_store :: db where
  "fresh_budget_store = \<lparr>users = [alice], transactions = [], budgets = [food_budget]\<rparr>"

definition rent_store :: db where
  "rent_store = \<lparr>users = [alice], transactions = [rent], budgets = []\<rparr>"

definition rent_budget :: budget where
  "rent_budget =
     \<lparr>b_id = 2, b_name = ''housing'', b_amount = 0, b_category = ''home'',
      b_start_date = mk_datetime 2024 1 1 0, b_end_date = mk_datetime 2024 12 31 0,
      b_user_id = Some 1\<rparr>"

definition full_store :: db where
  "full_store = \<lparr>users = [alice], transactions = [rent], budgets = [food_budget, rent_budget]\<rparr>"

definition spend :: "int \<Rightarrow> string \<Rightarrow> real \<Rightarrow> transaction" where
  "spend i c a =
     \<lparr>t_id = i, t_description = ''purchase'', t_amount = a, t_date = None, t_category = c,
      t_user_id = Some 1\<rparr>"



definition tie_store :: db where
  "tie_store =
     \<lparr>users = [alice], transactions = [spend 1 ''A'' 50, spend 2 ''B'' 50], budgets = []\<rparr>"

section \<open>Results\<close>

lemma query_first_absent:
  "list_all (\<lambda>b. b_id b \<noteq> budget_id) bs \<Longrightarrow> query_first (\<lambda>b. b_id b = budget_id) bs = None"
  by (induction bs) (simp_all add: query_first_def)

lemma check_budget_exceeded_absent:
  "list_all (\<lambda>b. b_id b \<noteq> budget_id) (budgets st) \<Longrightarrow>
   check_budget_exceeded budget_id st = Inl AttributeError"
  by (simp add: check_budget_exceeded_def query_first_absent)

lemma get_budget_utilization_absent:
  "list_all (\<lambda>b. b_id b \<noteq> budget_id) (budgets st) \<Longrightarrow>
   get_budget_utilization budget_id st = Inl AttributeError"
  by (simp add: get_budget_utilization_def query_first_absent)

text \<open>
  C1. A budget id that names no budget does not give \<open>NotFound\<close>: both handlers read
  \<open>db_budget.user_id\<close> off \<open>None\<close> and end in \<open>AttributeError\<close>. Evaluated on the empty
  store with budget id 1.
\<close>

theorem C1_absent_budget_AttributeError:
  "check_budget_exceeded 1 \<lparr>users = [], transactions = [], budgets = []\<rparr> = Inl AttributeError
   \<and> get_budget_utilization 1 \<lparr>users = [], transactions = [], budgets = []\<rparr> = Inl AttributeError
   \<and> AttributeError \<noteq> NotFound"
  by (simp add: check_budget_exceeded_absent get_budget_utilization_absent)

lemma query_first_distinct:
  "distinct (map f rows) \<Longrightarrow> r \<in> set rows \<Longrightarrow> query_first (\<lambda>x. f x = f r) rows = Some r"
proof (induction rows)
  case Nil
  then show ?case by simp
next
  case (Cons a rows)
  show ?case
  proof (cases "a = r")
    case True
    then show ?thesis by (simp add: query_first_def)
  next
    case False
    with Cons.prems have r: "r \<in> set rows" by simp
    with Cons.prems have "f a \<noteq> f r" by auto
    with Cons.IH Cons.prems r show ?thesis by (simp add: query_first_def)
  qed
qed

lemma budget_spent_matching:
  "budget_spent b st =
     func_sum (map t_amount
       (filter (\<lambda>t. t_user_id t = b_user_id b \<and> t_category t = b_category b) (transactions st)))"
  by (simp add: budget_spent_def query_all_def)

lemma check_budget_exceeded_spent:
  assumes "query_first (\<lambda>b. b_id b = budget_id) (budgets st) = Some b"
    and "ms = filter (\<lambda>t. t_user_id t = b_user_id b \<and> t_category t = b_category b) (transactions st)"
  shows "check_budget_exceeded budget_id st =
           (if ms = [] then Inl TypeError else Inr (sum_list (map t_amount ms) > b_amount b))"
  using assms by (simp add: check_budget_exceeded_def budget_spent_matching func_sum_def)

text \<open>
  C2. For a budget with no matching transaction the handler does not return false: the
  sum is \<open>None\<close> and the comparison with the amount raises \<open>TypeError\<close>. Evaluated on a
  store with one user, one budget of 100 for ''food'' and no transaction. (With at least
  one matching transaction the result is the strict comparison, as
  \<open>check_budget_exceeded_spent\<close> shows.)
\<close>

theorem C2_fresh_budget_TypeError:
  "check_budget_exceeded 1 fresh_budget_store = Inl TypeError"
  by (simp add: check_budget_exceeded_def budget_spent_def query_first_def query_all_def
      func_sum_def fresh_budget_store_def food_budget_def)

lemma add_days_0: "add_days 0 d = d"
  by (simp add: add_days.simps)

lemma add_days_Suc: "add_days (Suc n) d = add_days n (next_day d)"
  by (subst add_days.simps) simp

lemma add_days_within_month:
  "dt_day d + n \<le> days_in_month (dt_year d) (dt_month d) \<Longrightarrow>
   add_days n d = d\<lparr>dt_day := dt_day d + n\<rparr>"
proof (induction n arbitrary: d)
  case 0
  show ?case by (simp add: add_days_0)
next
  case (Suc n)
  from Suc.prems have n: "next_day d = d\<lparr>dt_day := dt_day d + 1\<rparr>"
    by (simp add: next_day_def)
  have "add_days n (next_day d) = (next_day d)\<lparr>dt_day := dt_day (next_day d) + n\<rparr>"
    using Suc.prems by (intro Suc.IH) (simp add: n)
  then show ?case by (simp add: add_days_Suc n)
qed

lemma add_days_add: "add_days (a + b) d = add_days b (add_days a d)"
  by (induction a arbitrary: d) (simp_all add: add_days_0 add_days_Suc)

lemma days_in_month_bounds: "28 \<le> days_in_month y m \<and> days_in_month y m \<le> 31"
  by (simp add: days_in_month_def)

lemma next_day_month_end:
  "dt_day d = days_in_month (dt_year d) (dt_month d) \<Longrightarrow> next_day d = next_month_first d"
  by (simp add: next_day_def next_month_first_def)

lemma add_31_days_from_first:
  assumes "dt_day d = 1"
  shows "(add_days 31 d)\<lparr>dt_day := 1\<rparr> = next_month_first d"
proof -
  let ?L = "days_in_month (dt_year d) (dt_month d)"
  let ?e = "next_month_first d"
  have b: "28 \<le> ?L" "?L \<le> 31" using days_in_month_bounds [of "dt_year d" "dt_month d"] by simp_all
  have split: "(31::nat) = (?L - 1) + Suc (31 - ?L)" using b by simp
  have 1: "add_days (?L - 1) d = d\<lparr>dt_day := ?L\<rparr>"
    using add_days_within_month [of d "?L - 1"] assms b by simp
  have 2: "next_day (d\<lparr>dt_day := ?L\<rparr>) = ?e"
    using next_day_month_end [of "d\<lparr>dt_day := ?L\<rparr>"] by (simp add: next_month_first_def)
  have e1: "dt_day ?e = 1" by (simp add: next_month_first_def)
  have "28 \<le> days_in_month (dt_year ?e) (dt_month ?e)"
    using days_in_month_bounds by simp
  then have 3: "add_days (31 - ?L) ?e = ?e\<lparr>dt_day := dt_day ?e + (31 - ?L)\<rparr>"
    using b e1 by (intro add_days_within_month) simp
  have "add_days 31 d = add_days (Suc (31 - ?L)) (add_days (?L - 1) d)"
    by (subst split) (rule add_days_add)
  also have "\<dots> = add_days (31 - ?L) ?e"
    by (simp only: 1 add_days_Suc 2)
  finally have "add_days 31 d = ?e\<lparr>dt_day := dt_day ?e + (31 - ?L)\<rparr>"
    by (simp add: 3)
  then show ?thesis using e1 by (simp add: next_month_first_def)
qed

lemma add_31_days_year:
  assumes "dt_day d = 1"
  shows "dt_year (add_days 31 d) = dt_year (next_month_first d)"
proof -
  have "dt_year (add_days 31 d) = dt_year ((add_days 31 d)\<lparr>dt_day := 1\<rparr>)" by simp
  then show ?thesis by (simp only: add_31_days_from_first [OF assms])
qed

text \<open>
  What the report sums, for every \<open>now\<close>: the transactions of the user dated from day 1
  of the current month at the time of day of \<open>now\<close>, inclusive, to day 1 of the next month
  at the same time of day, exclusive.
\<close>

lemma get_monthly_spending_report_window:
  "get_monthly_spending_report now user_id st =
     (if dt_year (next_month_first now) > 9999 then Inl OverflowError
      else Inr (func_sum (map t_amount
             (filter (\<lambda>t. t_user_id t = Some user_id
                            \<and> date_ge (t_date t) (now\<lparr>dt_day := 1\<rparr>)
                            \<and> date_lt (t_date t) (next_month_first now))
                (transactions st)))))"
proof -
  let ?s = "now\<lparr>dt_day := 1\<rparr>"
  have d: "dt_day ?s = 1" by simp
  have n: "next_month_first ?s = next_month_first now"
    by (simp add: next_month_first_def)
  have y: "dt_year (add_days 31 ?s) = dt_year (next_month_first now)"
    using add_31_days_year [OF d] n by simp
  have e: "(add_days 31 ?s)\<lparr>dt_day := 1\<rparr> = next_month_first now"
    using add_31_days_from_first [OF d] n by simp
  have y': "dt_year (add_days 31 (now\<lparr>dt_day := Suc 0\<rparr>)) = dt_year (next_month_first now)"
    using y by simp
  have e': "(add_days 31 (now\<lparr>dt_day := Suc 0\<rparr>))\<lparr>dt_day := Suc 0\<rparr> = next_month_first now"
    using e by simp
  show ?thesis
    by (simp add: get_monthly_spending_report_def timedelta_add_def Let_def y' e' query_all_def)
qed

lemma march_first_plus_31:
  "timedelta_add (mk_datetime 2024 3 1 12) 31 = Inr (mk_datetime 2024 4 1 12)"
  by (simp add: timedelta_add_def mk_datetime_def add_days.simps next_day_def days_in_month_def
      is_leap_def Let_def)

lemma replace_day_march_15: "(mk_datetime 2024 3 15 12)\<lparr>dt_day := 1\<rparr> = mk_datetime 2024 3 1 12"
  by (simp add: mk_datetime_def)

lemma replace_day_april_1: "(mk_datetime 2024 4 1 12)\<lparr>dt_day := 1\<rparr> = mk_datetime 2024 4 1 12"
  by (simp add: mk_datetime_def)

text \<open>
  C3. The window of the monthly report does not start at the first instant of the month:
  \<open>replace(day=1)\<close> keeps the time of day of \<open>now\<close>. At 2024-03-15 12:00 a transaction of
  10 dated 2024-03-01 00:00 lies before \<open>start_date\<close> (2024-03-01 12:00), no row is
  selected and the report is \<open>None\<close>, where the month of the specification gives 10.
\<close>

theorem C3_first_instant_excluded:
  "get_monthly_spending_report (mk_datetime 2024 3 15 12) 1 rent_store = Inr None
   \<and> spec_monthly_spending (mk_datetime 2024 3 15 12) 1 rent_store = 10"
proof -
  have "get_monthly_spending_report (mk_datetime 2024 3 15 12) 1 rent_store = Inr None"
    apply (simp only: get_monthly_spending_report_def Let_def replace_day_march_15
        march_first_plus_31 sum.case replace_day_april_1)
    apply (simp add: rent_store_def rent_def mk_datetime_def query_all_def func_sum_def
        date_ge_def date_lt_def dt_le_def dt_lt_def dt_key_def)
    done
  moreover have "spec_monthly_spending (mk_datetime 2024 3 15 12) 1 rent_store = 10"
    by (simp add: spec_monthly_spending_def spec_month_start_def spec_next_month_start_def
        rent_store_def rent_def mk_datetime_def date_ge_def date_lt_def dt_le_def dt_lt_def
        dt_key_def)
  ultimately show ?thesis by simp
qed

lemma detach_transaction_fields:
  "(detach_transaction uid t)\<lparr>t_user_id := None\<rparr> = t\<lparr>t_user_id := None\<rparr>"
  by (simp add: detach_transaction_def)

lemma detach_transaction_user_id:
  "t_user_id (detach_transaction uid t) = (if t_user_id t = Some uid then None else t_user_id t)"
  by (simp add: detach_transaction_def)

lemma detach_budget_fields:
  "(detach_budget uid b)\<lparr>b_user_id := None\<rparr> = b\<lparr>b_user_id := None\<rparr>"
  by (simp add: detach_budget_def)

lemma detach_budget_user_id:
  "b_user_id (detach_budget uid b) = (if b_user_id b = Some uid then None else b_user_id b)"
  by (simp add: detach_budget_def)

lemma query_first_present:
  "list_ex p rows \<Longrightarrow> \<exists>r. query_first p rows = Some r \<and> p r"
  by (induction rows) (auto simp: query_first_def)

lemma query_first_none:
  "list_all (\<lambda>r. \<not> p r) rows \<Longrightarrow> query_first p rows = None"
  by (induction rows) (simp_all add: query_first_def)

lemma bind_int_in_range: "- (2 ^ 63) \<le> i \<Longrightarrow> i < 2 ^ 63 \<Longrightarrow> bind_int i = Inr i"
  by (simp add: bind_int_def)

lemma bind_int_out_of_range: "i < - (2 ^ 63) \<or> 2 ^ 63 \<le> i \<Longrightarrow> bind_int i = Inl OverflowError"
  by (auto simp: bind_int_def)

lemma delete_user_out_of_range:
  "user_id < - (2 ^ 63) \<or> 2 ^ 63 \<le> user_id \<Longrightarrow> delete_user user_id st = (Inl OverflowError, st)"
  by (simp add: delete_user_def bind_int_out_of_range)

lemma delete_user_absent:
  "- (2 ^ 63) \<le> user_id \<Longrightarrow> user_id < 2 ^ 63 \<Longrightarrow>
   list_all (\<lambda>u. u_id u \<noteq> user_id) (users st) \<Longrightarrow>
   delete_user user_id st = (Inl NotFound, st)"
  by (simp add: delete_user_def bind_int_in_range query_first_none)

lemma delete_user_present:
  assumes "- (2 ^ 63) \<le> user_id" and "user_id < 2 ^ 63"
    and "list_ex (\<lambda>u. u_id u = user_id) (users st)"
  shows "delete_user user_id st =
    (Inr ''User deleted'',
     \<lparr>users = filter (\<lambda>u. u_id u \<noteq> user_id) (users st),
      transactions = map (detach_transaction user_id) (transactions st),
      budgets = map (detach_budget user_id) (budgets st)\<rparr>)"
proof -
  from query_first_present [OF assms(3)]
  obtain u where "query_first (\<lambda>u. u_id u = user_id) (users st) = Some u" and "u_id u = user_id"
    by blast
  then show ?thesis
    by (simp add: delete_user_def bind_int_in_range [OF assms(1,2)] session_delete_user_def)
qed

text \<open>
  C4, as the code has it. For a user id inside SQLite's integer range: deleting an absent
  id fails with \<open>NotFound\<close> and leaves the store as it was; deleting an existing one removes
  the user row and keeps every transaction and budget row, in place and with every other
  column unchanged, but sets \<open>user_id\<close> to NULL on the rows that referred to the deleted
  user, so that no row refers to the deleted id afterwards. For an id outside the range
  (below \<open>-2^63\<close> or from \<open>2^63\<close> on) the handler ends in \<open>OverflowError\<close> and the store is
  as it was.
\<close>

theorem C4_delete_user_detaches_children:
  "(user_id < - (2 ^ 63) \<or> 2 ^ 63 \<le> user_id \<longrightarrow>
      delete_user user_id st = (Inl OverflowError, st)) \<and>
   (- (2 ^ 63) \<le> user_id \<and> user_id < 2 ^ 63
      \<and> list_all (\<lambda>u. u_id u \<noteq> user_id) (users st) \<longrightarrow>
      delete_user user_id st = (Inl NotFound, st)) \<and>
   (- (2 ^ 63) \<le> user_id \<and> user_id < 2 ^ 63
      \<and> list_ex (\<lambda>u. u_id u = user_id) (users st) \<longrightarrow>
     (\<exists>st'. delete_user user_id st = (Inr ''User deleted'', st')
        \<and> users st' = filter (\<lambda>u. u_id u \<noteq> user_id) (users st)
        \<and> map (\<lambda>t. t\<lparr>t_user_id := None\<rparr>) (transactions st')
            = map (\<lambda>t. t\<lparr>t_user_id := None\<rparr>) (transactions st)
        \<and> map t_user_id (transactions st')
            = map (\<lambda>t. if t_user_id t = Some user_id then None else t_user_id t)
                (transactions st)
        \<and> map (\<lambda>b. b\<lparr>b_user_id := None\<rparr>) (budgets st')
            = map (\<lambda>b. b\<lparr>b_user_id := None\<rparr>) (budgets st)
        \<and> map b_user_id (budgets st')
            = map (\<lambda>b. if b_user_id b = Some user_id then None else b_user_id b)
                (budgets st)))"
proof (intro conjI impI)
  assume "user_id < - (2 ^ 63) \<or> 2 ^ 63 \<le> user_id"
  then show "delete_user user_id st = (Inl OverflowError, st)"
    by (rule delete_user_out_of_range)
next
  assume "- (2 ^ 63) \<le> user_id \<and> user_id < 2 ^ 63
      \<and> list_all (\<lambda>u. u_id u \<noteq> user_id) (users st)"
  then show "delete_user user_id st = (Inl NotFound, st)"
    by (simp add: delete_user_absent)
next
  assume "- (2 ^ 63) \<le> user_id \<and> user_id < 2 ^ 63
      \<and> list_ex (\<lambda>u. u_id u = user_id) (users st)"
  then have "delete_user user_id st =
    (Inr ''User deleted'',
     \<lparr>users = filter (\<lambda>u. u_id u \<noteq> user_id) (users st),
      transactions = map (detach_transaction user_id) (transactions st),
      budgets = map (detach_budget user_id) (budgets st)\<rparr>)"
    by (simp add: delete_user_present)
  then show "\<exists>st'. delete_user user_id st = (Inr ''User deleted'', st')
        \<and> users st' = filter (\<lambda>u. u_id u \<noteq> user_id) (users st)
        \<and> map (\<lambda>t. t\<lparr>t_user_id := None\<rparr>) (transactions st')
            = map (\<lambda>t. t\<lparr>t_user_id := None\<rparr>) (transactions st)
        \<and> map t_user_id (transactions st')
            = map (\<lambda>t. if t_user_id t = Some user_id then None else t_user_id t)
                (transactions st)
        \<and> map (\<lambda>b. b\<lparr>b_user_id := None\<rparr>) (budgets st')
            = map (\<lambda>b. b\<lparr>b_user_id := None\<rparr>) (budgets st)
        \<and> map b_user_id (budgets st')
            = map (\<lambda>b. if b_user_id b = Some user_id then None else b_user_id b)
                (budgets st)"
    by (simp add: o_def detach_transaction_fields detach_transaction_user_id
        detach_budget_fields detach_budget_user_id)
qed

text \<open>
  The children do not keep a dangling reference: after deleting user 1, the transaction
  and the budgets that belonged to user 1 have \<open>user_id = NULL\<close>, so the two tables are
  not as they were.
\<close>

theorem C4_delete_user_dangling_counterexample:
  "list_ex (\<lambda>u. u_id u = 1) (users full_store)
   \<and> map t_user_id (transactions full_store) = [Some 1]
   \<and> map t_user_id (transactions (snd (delete_user 1 full_store))) = [None]
   \<and> transactions (snd (delete_user 1 full_store)) \<noteq> transactions full_store
   \<and> budgets (snd (delete_user 1 full_store)) \<noteq> budgets full_store"
  by (simp add: delete_user_def bind_int_def session_delete_user_def query_first_def
      full_store_def alice_def rent_def food_budget_def rent_budget_def detach_transaction_def
      detach_budget_def)

theorem C4_delete_user_witness:
  "list_ex (\<lambda>u. u_id u = 1) (users full_store)
   \<and> list_all (\<lambda>u. u_id u \<noteq> 2) (users full_store)
   \<and> delete_user (2 ^ 63) full_store = (Inl OverflowError, full_store)
   \<and> delete_user 2 full_store = (Inl NotFound, full_store)
   \<and> (\<exists>st'. delete_user 1 full_store = (Inr ''User deleted'', st')
        \<and> users st' = []
        \<and> map t_user_id (transactions st') = [None]
        \<and> map b_user_id (budgets st') = [None, None])"
proof -
  have p: "list_ex (\<lambda>u. u_id u = 1) (users full_store)"
    by (simp add: full_store_def alice_def)
  have a: "list_all (\<lambda>u. u_id u \<noteq> 2) (users full_store)"
    by (simp add: full_store_def alice_def)
  have r1: "- (2 ^ 63) \<le> (1::int) \<and> (1::int) < 2 ^ 63" by simp
  have r2: "- (2 ^ 63) \<le> (2::int) \<and> (2::int) < 2 ^ 63" by simp
  have r3: "(2::int) ^ 63 < - (2 ^ 63) \<or> (2::int) ^ 63 \<le> 2 ^ 63" by simp
  from C4_delete_user_detaches_children [of "2 ^ 63" full_store] r3
  have o: "delete_user (2 ^ 63) full_store = (Inl OverflowError, full_store)" by blast
  from C4_delete_user_detaches_children [of 2 full_store] a r2
  have n: "delete_user 2 full_store = (Inl NotFound, full_store)" by blast
  from C4_delete_user_detaches_children [of 1 full_store] p r1
  obtain st' where d: "delete_user 1 full_store = (Inr ''User deleted'', st')"
    and u: "users st' = filter (\<lambda>u. u_id u \<noteq> 1) (users full_store)"
    and t: "map t_user_id (transactions st')
            = map (\<lambda>t. if t_user_id t = Some 1 then None else t_user_id t) (transactions full_store)"
    and b: "map b_user_id (budgets st')
            = map (\<lambda>b. if b_user_id b = Some 1 then None else b_user_id b) (budgets full_store)"
    by blast
  have u': "users st' = []" using u by (simp add: full_store_def alice_def)
  have t': "map t_user_id (transactions st') = [None]"
    using t by (simp add: full_store_def rent_def)
  have b': "map b_user_id (budgets st') = [None, None]"
    using b by (simp add: full_store_def food_budget_def rent_budget_def)
  have "\<exists>st'. delete_user 1 full_store = (Inr ''User deleted'', st')
        \<and> users st' = []
        \<and> map t_user_id (transactions st') = [None]
        \<and> map b_user_id (budgets st') = [None, None]"
    by (rule exI [of _ st']) (intro conjI d u' t' b')
  then show ?thesis by (intro conjI p a o n)
qed

lemma set_end_date_other:
  "list_all (\<lambda>b. b_id b \<noteq> budget_id) bs \<Longrightarrow> set_end_date budget_id d bs = bs"
  by (induction bs) simp_all

lemma map_end_date_other:
  "list_all (\<lambda>b. b_id b \<noteq> budget_id) bs \<Longrightarrow>
   map (\<lambda>x. if b_id x = budget_id then x\<lparr>b_end_date := d\<rparr> else x) bs = bs"
  by (induction bs) simp_all

lemma set_end_date_distinct:
  "distinct (map b_id bs) \<Longrightarrow>
   set_end_date budget_id d bs =
     map (\<lambda>x. if b_id x = budget_id then x\<lparr>b_end_date := d\<rparr> else x) bs"
proof (induction bs)
  case Nil
  then show ?case by simp
next
  case (Cons b bs)
  show ?case
  proof (cases "b_id b = budget_id")
    case True
    with Cons.prems have "list_all (\<lambda>x. b_id x \<noteq> budget_id) bs"
      by (auto simp: list_all_iff image_iff)
    with True show ?thesis by (simp add: map_end_date_other)
  next
    case False
    with Cons show ?thesis by simp
  qed
qed

lemma extend_budget_out_of_range:
  "budget_id < - (2 ^ 63) \<or> 2 ^ 63 \<le> budget_id \<Longrightarrow>
   extend_budget budget_id d st = (Inl OverflowError, st)"
  by (simp add: extend_budget_def bind_int_out_of_range)

lemma extend_budget_absent:
  "- (2 ^ 63) \<le> budget_id \<Longrightarrow> budget_id < 2 ^ 63 \<Longrightarrow>
   list_all (\<lambda>b. b_id b \<noteq> budget_id) (budgets st) \<Longrightarrow>
   extend_budget budget_id d st = (Inl NotFound, st)"
  by (simp add: extend_budget_def bind_int_in_range query_first_absent)

lemma extend_budget_present:
  assumes "- (2 ^ 63) \<le> b_id b" and "b_id b < 2 ^ 63"
    and "distinct (map b_id (budgets st))" and "b \<in> set (budgets st)"
  shows "extend_budget (b_id b) d st =
    (Inr (b\<lparr>b_end_date := d\<rparr>),
     st\<lparr>budgets := map (\<lambda>x. if b_id x = b_id b then x\<lparr>b_end_date := d\<rparr> else x) (budgets st)\<rparr>)"
  using assms(3,4)
  by (simp add: extend_budget_def bind_int_in_range [OF assms(1,2)] query_first_distinct
      set_end_date_distinct)

text \<open>
  C5, as the code has it. For a budget id inside SQLite's integer range: extending an id
  that no budget has fails with \<open>NotFound\<close> and returns the store as it was; for an
  existing budget (ids being a primary key) the result is that budget with \<open>end_date\<close> set
  to the new date and the store with that one row so changed, whatever the new date is:
  the statement puts no condition on \<open>new_end_date\<close>. For an id outside the range (below
  \<open>-2^63\<close> or from \<open>2^63\<close> on) the handler ends in \<open>OverflowError\<close>, not in \<open>NotFound\<close>, and
  the store is as it was.
\<close>

theorem C5_extend_budget:
  "(budget_id < - (2 ^ 63) \<or> 2 ^ 63 \<le> budget_id \<longrightarrow>
      extend_budget budget_id new_end_date st = (Inl OverflowError, st)) \<and>
   (- (2 ^ 63) \<le> budget_id \<and> budget_id < 2 ^ 63
      \<and> list_all (\<lambda>b. b_id b \<noteq> budget_id) (budgets st) \<longrightarrow>
      extend_budget budget_id new_end_date st = (Inl NotFound, st)) \<and>
   (- (2 ^ 63) \<le> budget_id \<and> budget_id < 2 ^ 63
      \<and> distinct (map b_id (budgets st)) \<and> b \<in> set (budgets st) \<and> b_id b = budget_id \<longrightarrow>
      extend_budget budget_id new_end_date st =
        (Inr (b\<lparr>b_end_date := new_end_date\<rparr>),
         st\<lparr>budgets :=
              map (\<lambda>x. if b_id x = budget_id then x\<lparr>b_end_date := new_end_date\<rparr> else x)
                (budgets st)\<rparr>))"
proof (intro conjI impI)
  assume "budget_id < - (2 ^ 63) \<or> 2 ^ 63 \<le> budget_id"
  then show "extend_budget budget_id new_end_date st = (Inl OverflowError, st)"
    by (rule extend_budget_out_of_range)
next
  assume "- (2 ^ 63) \<le> budget_id \<and> budget_id < 2 ^ 63
      \<and> list_all (\<lambda>b. b_id b \<noteq> budget_id) (budgets st)"
  then show "extend_budget budget_id new_end_date st = (Inl NotFound, st)"
    by (simp add: extend_budget_absent)
next
  assume h: "- (2 ^ 63) \<le> budget_id \<and> budget_id < 2 ^ 63
      \<and> distinct (map b_id (budgets st)) \<and> b \<in> set (budgets st) \<and> b_id b = budget_id"
  then have "extend_budget (b_id b) new_end_date st =
    (Inr (b\<lparr>b_end_date := new_end_date\<rparr>),
     st\<lparr>budgets :=
          map (\<lambda>x. if b_id x = b_id b then x\<lparr>b_end_date := new_end_date\<rparr> else x)
            (budgets st)\<rparr>)"
    by (intro extend_budget_present) simp_all
  with h show "extend_budget budget_id new_end_date st =
        (Inr (b\<lparr>b_end_date := new_end_date\<rparr>),
         st\<lparr>budgets :=
              map (\<lambda>x. if b_id x = budget_id then x\<lparr>b_end_date := new_end_date\<rparr> else x)
                (budgets st)\<rparr>)"
    by simp
qed

text \<open>
  A budget id that no budget has does not always give \<open>NotFound\<close>: at \<open>2^63\<close> the handler
  ends in \<open>OverflowError\<close>.
\<close>

theorem C5_extend_budget_out_of_range_counterexample:
  "list_all (\<lambda>b. b_id b \<noteq> 2 ^ 63) (budgets full_store)
   \<and> extend_budget (2 ^ 63) (mk_datetime 2025 1 1 0) full_store = (Inl OverflowError, full_store)
   \<and> OverflowError \<noteq> NotFound"
  by (simp add: extend_budget_def bind_int_def full_store_def food_budget_def rent_budget_def)

theorem C5_extend_budget_witness:
  "list_all (\<lambda>b. b_id b \<noteq> 7) (budgets full_store)
   \<and> extend_budget (- (2 ^ 63) - 1) (mk_datetime 2023 6 1 0) full_store
        = (Inl OverflowError, full_store)
   \<and> extend_budget 7 (mk_datetime 2023 6 1 0) full_store = (Inl NotFound, full_store)
   \<and> distinct (map b_id (budgets full_store)) \<and> food_budget \<in> set (budgets full_store)
   \<and> dt_lt (mk_datetime 2023 6 1 0) (b_start_date food_budget)
   \<and> extend_budget 1 (mk_datetime 2023 6 1 0) full_store =
        (Inr (food_budget\<lparr>b_end_date := mk_datetime 2023 6 1 0\<rparr>),
         full_store\<lparr>budgets := [food_budget\<lparr>b_end_date := mk_datetime 2023 6 1 0\<rparr>, rent_budget]\<rparr>)"
proof -
  have a: "list_all (\<lambda>b. b_id b \<noteq> 7) (budgets full_store)"
    by (simp add: full_store_def food_budget_def rent_budget_def)
  have d: "distinct (map b_id (budgets full_store))"
    by (simp add: full_store_def food_budget_def rent_budget_def)
  have m: "food_budget \<in> set (budgets full_store)"
    by (simp add: full_store_def)
  have i: "b_id food_budget = 1"
    by (simp add: food_budget_def)
  have l: "dt_lt (mk_datetime 2023 6 1 0) (b_start_date food_budget)"
    by (simp add: food_budget_def mk_datetime_def dt_lt_def dt_key_def)
  have r1: "- (2 ^ 63) \<le> (1::int) \<and> (1::int) < 2 ^ 63" by simp
  have r7: "- (2 ^ 63) \<le> (7::int) \<and> (7::int) < 2 ^ 63" by simp
  have ro: "- (2 ^ 63) - 1 < - ((2::int) ^ 63) \<or> (2::int) ^ 63 \<le> - (2 ^ 63) - 1" by simp
  have o: "extend_budget (- (2 ^ 63) - 1) (mk_datetime 2023 6 1 0) full_store
        = (Inl OverflowError, full_store)"
    using C5_extend_budget [of "- (2 ^ 63) - 1" "mk_datetime 2023 6 1 0" full_store] ro
    by blast
  have n: "extend_budget 7 (mk_datetime 2023 6 1 0) full_store = (Inl NotFound, full_store)"
    using C5_extend_budget [of 7 "mk_datetime 2023 6 1 0" full_store] a r7 by blast
  have "extend_budget 1 (mk_datetime 2023 6 1 0) full_store =
        (Inr (food_budget\<lparr>b_end_date := mk_datetime 2023 6 1 0\<rparr>),
         full_store\<lparr>budgets :=
              map (\<lambda>x. if b_id x = 1 then x\<lparr>b_end_date := mk_datetime 2023 6 1 0\<rparr> else x)
                (budgets full_store)\<rparr>)"
    using C5_extend_budget [of 1 "mk_datetime 2023 6 1 0" full_store food_budget] d m i r1
    by blast
  moreover have "map (\<lambda>x. if b_id x = 1 then x\<lparr>b_end_date := mk_datetime 2023 6 1 0\<rparr> else x)
                (budgets full_store) = [food_budget\<lparr>b_end_date := mk_datetime 2023 6 1 0\<rparr>, rent_budget]"
    by (simp add: full_store_def food_budget_def rent_budget_def)
  ultimately have e: "extend_budget 1 (mk_datetime 2023 6 1 0) full_store =
        (Inr (food_budget\<lparr>b_end_date := mk_datetime 2023 6 1 0\<rparr>),
         full_store\<lparr>budgets := [food_budget\<lparr>b_end_date := mk_datetime 2023 6 1 0\<rparr>, rent_budget]\<rparr>)"
    by simp
  show ?thesis by (intro conjI a o n d m l e)
qed

text \<open>
  C6. An existing budget (ids being a primary key) whose amount is 0 has utilization 0,
  whatever its matching transactions are, none included: the amount is tested before the
  sum is used.
\<close>

theorem C6_zero_amount_utilization:
  "distinct (map b_id (budgets st)) \<Longrightarrow> b \<in> set (budgets st) \<Longrightarrow> b_amount b = 0 \<Longrightarrow>
   get_budget_utilization (b_id b) st = Inr 0"
  by (simp add: get_budget_utilization_def query_first_distinct Let_def)

theorem C6_zero_amount_utilization_witness:
  "distinct (map b_id (budgets full_store)) \<and> rent_budget \<in> set (budgets full_store)
   \<and> b_amount rent_budget = 0
   \<and> budget_spent rent_budget full_store = Some 10
   \<and> get_budget_utilization 2 full_store = Inr 0"
proof -
  have d: "distinct (map b_id (budgets full_store))"
    by (simp add: full_store_def food_budget_def rent_budget_def)
  have m: "rent_budget \<in> set (budgets full_store)"
    by (simp add: full_store_def)
  have z: "b_amount rent_budget = 0"
    by (simp add: rent_budget_def)
  have s: "budget_spent rent_budget full_store = Some 10"
    by (simp add: budget_spent_def query_all_def func_sum_def full_store_def rent_budget_def
        rent_def)
  have "get_budget_utilization (b_id rent_budget) full_store = Inr 0"
    using C6_zero_amount_utilization [OF d m z] .
  then have u: "get_budget_utilization 2 full_store = Inr 0"
    by (simp add: rent_budget_def)
  show ?thesis by (intro conjI d m z s u)
qed

lemma sum_list_filter_rows:
  fixes f :: "'a \<Rightarrow> real"
  shows "sum_list (map f (filter P xs)) = (\<Sum>i\<in>{i. i < length xs \<and> P (xs ! i)}. f (xs ! i))"
proof (induction xs rule: rev_induct)
  case Nil
  show ?case by simp
next
  case (snoc x xs)
  let ?S = "{i. i < length xs \<and> P (xs ! i)}"
  have fin: "finite ?S" by simp
  have notin: "length xs \<notin> ?S" by simp
  have eq: "{i. i < length (xs @ [x]) \<and> P ((xs @ [x]) ! i)} =
            (if P x then insert (length xs) ?S else ?S)"
    by (auto simp: nth_append less_Suc_eq)
  have same: "(\<Sum>i\<in>?S. f ((xs @ [x]) ! i)) = (\<Sum>i\<in>?S. f (xs ! i))"
    by (rule sum.cong) (auto simp: nth_append)
  show ?case
  proof (cases "P x")
    case True
    then have "(\<Sum>i\<in>{i. i < length (xs @ [x]) \<and> P ((xs @ [x]) ! i)}. f ((xs @ [x]) ! i))
               = f x + (\<Sum>i\<in>?S. f ((xs @ [x]) ! i))"
      using fin notin by (simp only: eq if_True sum.insert) simp
    with True snoc.IH same show ?thesis by simp
  next
    case False
    then have "(\<Sum>i\<in>{i. i < length (xs @ [x]) \<and> P ((xs @ [x]) ! i)}. f ((xs @ [x]) ! i))
               = (\<Sum>i\<in>?S. f ((xs @ [x]) ! i))"
      by (simp only: eq if_False)
    with False snoc.IH same show ?thesis by simp
  qed
qed

lemma filter_empty_list_ex: "filter P xs = [] \<longleftrightarrow> \<not> list_ex P xs"
  by (induction xs) simp_all

text \<open>
  C7, as the code has it. For a user id inside SQLite's integer range the total spent is
  the sum of the amounts of the stored transactions of that user, each row counted once,
  when there is at least one, and \<open>None\<close> when there is none. For an id outside the range
  (below \<open>-2^63\<close> or from \<open>2^63\<close> on) the handler ends in \<open>OverflowError\<close>.
\<close>

theorem C7_get_total_spent:
  "get_total_spent user_id st =
     (if - (2 ^ 63) \<le> user_id \<and> user_id < 2 ^ 63
      then Inr (if list_ex (\<lambda>t. t_user_id t = Some user_id) (transactions st)
                then Some (\<Sum>i\<in>{i. i < length (transactions st)
                                    \<and> t_user_id (transactions st ! i) = Some user_id}.
                             t_amount (transactions st ! i))
                else None)
      else Inl OverflowError)"
  by (simp add: get_total_spent_def bind_int_def query_all_def func_sum_def
      filter_empty_list_ex sum_list_filter_rows)

text \<open>
  A user with no transaction does not always get \<open>None\<close>: at user id \<open>2^63\<close>, which no
  transaction refers to, the handler ends in \<open>OverflowError\<close>.
\<close>

theorem C7_get_total_spent_out_of_range_counterexample:
  "list_all (\<lambda>t. t_user_id t \<noteq> Some (2 ^ 63)) (transactions rent_store)
   \<and> get_total_spent (2 ^ 63) rent_store = Inl OverflowError"
  by (simp add: get_total_spent_def bind_int_def rent_store_def rent_def)



lemma group_by_category_Nil_iff: "group_by_category ts = [] \<longleftrightarrow> ts = []"
  by (simp add: group_by_category_def)








text \<open>
  Which of two categories with equal sums is returned depends on the order of the rows:
  on A:50, B:50 it is A when the rows come as grouped and B when they come reversed.
\<close>

lemma get_highest_spending_category_tie:
  "get_highest_spending_category (\<lambda>gs. gs) tie_store = Inr (''A'', 50)
   \<and> get_highest_spending_category rev tie_store = Inr (''B'', 50)"
  by (simp add: get_highest_spending_category_def order_by_desc_def group_by_category_def
      category_total_def tie_store_def spend_def)



lemma dt_le_refl: "dt_le d d"
  by (simp add: dt_le_def)

text \<open>
  C9. The date filter returns the stored transactions, in stored order, whose date lies
  between the two bounds, both included: a transaction dated exactly \<open>start_date\<close> or
  exactly \<open>end_date\<close> is in the result (the range being non-empty).
\<close>

theorem C9_filter_transactions_by_date:
  "filter_transactions_by_date start_date end_date st =
     filter (\<lambda>t. \<exists>d. t_date t = Some d \<and> dt_le start_date d \<and> dt_le d end_date)
       (transactions st)
   \<and> (t \<in> set (transactions st) \<and> t_date t = Some start_date \<and> dt_le start_date end_date
        \<longrightarrow> t \<in> set (filter_transactions_by_date start_date end_date st))
   \<and> (t \<in> set (transactions st) \<and> t_date t = Some end_date \<and> dt_le start_date end_date
        \<longrightarrow> t \<in> set (filter_transactions_by_date start_date end_date st))"
proof -
  have p: "(date_ge (t_date x) start_date \<and> date_le (t_date x) end_date) =
        (\<exists>d. t_date x = Some d \<and> dt_le start_date d \<and> dt_le d end_date)" for x
    by (cases "t_date x") (simp_all add: date_ge_def date_le_def)
  have e: "filter_transactions_by_date start_date end_date st =
     filter (\<lambda>t. \<exists>d. t_date t = Some d \<and> dt_le start_date d \<and> dt_le d end_date)
       (transactions st)"
    by (simp add: filter_transactions_by_date_def query_all_def p)
  show ?thesis
    by (simp add: e dt_le_refl)
qed

theorem C9_filter_transactions_by_date_witness:
  "rent \<in> set (transactions rent_store) \<and> t_date rent = Some (mk_datetime 2024 3 1 0)
   \<and> dt_le (mk_datetime 2024 3 1 0) (mk_datetime 2024 3 1 0)
   \<and> rent \<in> set (filter_transactions_by_date (mk_datetime 2024 3 1 0) (mk_datetime 2024 3 1 0) rent_store)"
proof -
  have m: "rent \<in> set (transactions rent_store)" by (simp add: rent_store_def)
  have d: "t_date rent = Some (mk_datetime 2024 3 1 0)" by (simp add: rent_def)
  have l: "dt_le (mk_datetime 2024 3 1 0) (mk_datetime 2024 3 1 0)" by (simp add: dt_le_def)
  have r: "rent \<in> set (filter_transactions_by_date (mk_datetime 2024 3 1 0) (mk_datetime 2024 3 1 0) rent_store)"
    using C9_filter_transactions_by_date
      [of "mk_datetime 2024 3 1 0" "mk_datetime 2024 3 1 0" rent_store rent] m d l
    by blast
  show ?thesis by (intro conjI m d l r)
qed

lemma query_count_length: "query_count p rows = length (query_all p rows)"
  by (induction rows) (simp_all add: query_all_def)

text \<open>
  C10. The count of a category is the length of the list of that category on the same
  store.
\<close>

theorem C10_count_is_length_of_list:
  "get_transactions_count_by_category category st =
     length (filter_transactions_by_category category st)"
  by (simp add: get_transactions_count_by_category_def filter_transactions_by_category_def
      query_count_length)

end
